theory Spec2Isabelle
  imports Main
begin

section \<open>The MNIST estimator driver (official/mnist/mnist.py)\<close>

text \<open>
  The module is glue over a tensor framework.  Every framework object the module builds
  (a layer, a strategy, a run configuration, an estimator specification) is embedded as
  a value of a datatype whose constructor is named after the framework class and whose
  arguments are the arguments the module passes, in the order the source writes them.
  What the framework computes with these objects is not modelled; what the module
  decides (which objects, with which arguments, in which order, and which errors it
  raises itself) is.
\<close>

subsection \<open>Errors the module can raise\<close>

text \<open>
  \<open>RuntimeError\<close> carries the source line of its \<open>raise\<close> statement (the line a
  Python traceback reports) and its message.  \<open>SystemExit\<close> is how the argument
  parser leaves on a malformed command line.
\<close>

datatype error =
    RuntimeError nat string
  | AssertionError
  | KeyError string
  | NameError string
  | ZeroDivisionError
  | ValueError string
  | SystemExit int

subsection \<open>Layers and the sequential model\<close>

text \<open>
  A float literal of the source is kept as written: \<open>Decimal m e\<close> stands for
  the literal \<open>m * 10^e\<close> (\<open>0.4\<close> is \<open>Decimal 4 (-1)\<close>); no floating
  point arithmetic is done by the module.
\<close>

datatype decimal = Decimal int int

datatype activation = relu

text \<open>
  Constructor arguments, as the source passes them:
  \<^item> \<open>Reshape target_shape\<close>
  \<^item> \<open>Conv2D filters kernel_size padding data_format activation\<close>
  \<^item> \<open>MaxPooling2D pool_size strides padding data_format\<close>
  \<^item> \<open>Dense units activation\<close> (\<open>None\<close>: no activation given)
  \<^item> \<open>Dropout rate\<close>
\<close>

datatype layer =
    Reshape "int list"
  | Conv2D int int string string "activation option"
  | MaxPooling2D "int \<times> int" "int \<times> int" string string
  | Flatten
  | Dense int "activation option"
  | Dropout decimal

datatype keras_model = Sequential "layer list"

text \<open>
  Modelled from the spec: \<open>mnist_dataset.IMAGE_SIZE\<close>, the default of
  \<open>image_size\<close>, is a constant of \<open>official/datasets/image/mnist_dataset.py\<close>, which
  is not among the sources.  The spec's data model has "28x28 single-channel pixel
  grids", and the docstring of \<open>create_model\<close> says "MNIST images are 28x28 pixels".
\<close>

definition IMAGE_SIZE :: int where
  "IMAGE_SIZE = 28"

text \<open>
  Lines 56-60 of \<open>create_model\<close>: the input shape, or the failed assertion.
\<close>

definition input_shape :: "string \<Rightarrow> int \<Rightarrow> error + int list" where
  "input_shape data_format image_size =
     (if data_format = ''channels_first'' then Inr [1, image_size, image_size]
      else if data_format = ''channels_last'' then Inr [image_size, image_size, 1]
      else Inl AssertionError)"

text \<open>
  \<open>create_model\<close> (lines 35-88).  The result is a pair: the layer objects constructed
  so far, in the order their constructors run, and the outcome.  The one pooling
  object \<open>max_pool\<close> is constructed first (line 63) and stands twice in the list
  handed to \<open>Sequential\<close>; the other layers are constructed while that list is built.
\<close>

definition create_model :: "string \<Rightarrow> int \<Rightarrow> layer list \<times> (error + keras_model)" where
  "create_model data_format image_size =
     (case input_shape data_format image_size of
        Inl e \<Rightarrow> ([], Inl e)
      | Inr shape \<Rightarrow>
          (let max_pool = MaxPooling2D (2, 2) (2, 2) ''same'' data_format;
               l1 = Reshape shape;
               l2 = Conv2D 32 5 ''same'' data_format (Some relu);
               l3 = Conv2D 64 5 ''same'' data_format (Some relu);
               l4 = Flatten;
               l5 = Dense 1024 (Some relu);
               l6 = Dropout (Decimal 4 (- 1));
               l7 = Dense 10 None
           in ([max_pool, l1, l2, l3, l4, l5, l6, l7],
               Inr (Sequential [l1, l2, max_pool, l3, max_pool, l4, l5, l6, l7]))))"

subsection \<open>Tensors and estimator specifications\<close>

text \<open>
  \<open>Global name\<close> is a function of the module handed to the framework by reference.
\<close>

datatype callable = Global string

datatype optimizer = AdamOptimizer decimal

text \<open>
  Tensor expressions are kept symbolic.  \<open>Given t\<close> is a tensor the framework hands
  to \<open>model_fn\<close>; \<open>Apply m x training\<close> is the call \<open>m(x, training=...)\<close>; the
  others are named after the framework function, with the arguments of the source:
  \<open>argmax input axis\<close>, \<open>sparse_softmax_cross_entropy labels logits\<close>,
  \<open>metrics_accuracy labels predictions\<close>, \<open>minimize optimizer loss global_step\<close>.
\<close>

datatype 'a tensor =
    Given 'a
  | Apply keras_model "'a tensor" bool
  | argmax "'a tensor" int
  | softmax "'a tensor"
  | sparse_softmax_cross_entropy "'a tensor" "'a tensor"
  | metrics_accuracy "'a tensor" "'a tensor"
  | no_op
  | get_or_create_global_step
  | minimize optimizer "'a tensor" "'a tensor"

text \<open>
  \<open>features\<close> is either the image tensor itself or a dict holding it under
  \<open>'image'\<close> (the \<open>isinstance(image, dict)\<close> test of line 108).
\<close>

datatype 'a features = Tensor 'a | Dict "(string \<times> 'a) list"

datatype 'a export_output = PredictOutput "(string \<times> 'a tensor) list"

text \<open>
  One constructor for each way the module builds a specification:
  \<^item> \<open>EstimatorSpec_predict mode predictions export_outputs\<close> (line 120)
  \<^item> \<open>TPUEstimatorSpec_train mode loss train_op\<close> (line 146)
  \<^item> \<open>EstimatorSpec_train mode loss train_op\<close> (line 147)
  \<^item> \<open>TPUEstimatorSpec_eval mode loss eval_metrics\<close> (line 153)
  \<^item> \<open>EstimatorSpec_eval mode loss eval_metric_ops\<close> (line 158)
\<close>

datatype 'a estimator_spec =
    EstimatorSpec_predict string "(string \<times> 'a tensor) list"
      "(string \<times> 'a export_output) list"
  | TPUEstimatorSpec_train string "'a tensor" "'a tensor"
  | EstimatorSpec_train string "'a tensor" "'a tensor"
  | TPUEstimatorSpec_eval string "'a tensor" "callable \<times> 'a tensor list"
  | EstimatorSpec_eval string "'a tensor" "(string \<times> 'a tensor) list"

text \<open>
  The mode keys are the framework's string constants \<open>tf.estimator.ModeKeys\<close>;
  \<open>model_fn\<close> compares \<open>mode\<close> with them by \<open>==\<close>.
\<close>

definition TRAIN :: string where
  "TRAIN = ''train''"

definition EVAL :: string where
  "EVAL = ''eval''"

definition PREDICT :: string where
  "PREDICT = ''infer''"

definition LEARNING_RATE :: decimal where
  "LEARNING_RATE = Decimal 1 (- 4)"

text \<open>
  The dict \<open>params\<close> that \<open>construct_estimator\<close> builds (line 172) and
  \<open>model_fn\<close> reads: \<open>params_use_tpu p\<close> is \<open>params["use_tpu"]\<close> and
  \<open>params_data_format p\<close> is \<open>params['data_format']\<close>.
\<close>

record params =
  params_use_tpu :: bool
  params_data_format :: string

text \<open>
  \<open>metric_fn\<close> (lines 91-97).  Whether a distribution strategy is active is state of
  the framework, read by \<open>has_distribution_strategy()\<close>; it is a parameter here.
\<close>

definition metric_fn :: "bool \<Rightarrow> 'a tensor \<Rightarrow> 'a tensor \<Rightarrow> (string \<times> 'a tensor) list" where
  "metric_fn has_distribution_strategy labels logits =
     (let accuracy =
            (if has_distribution_strategy then no_op
             else metrics_accuracy labels (argmax logits 1))
      in [(''accuracy'', accuracy)])"

definition TPU_PREDICT_MESSAGE :: string where
  "TPU_PREDICT_MESSAGE = ''mode PREDICT is not yet supported for TPUs.''"

text \<open>
  Lines 107-109: the image is \<open>features\<close>, or \<open>features['image']\<close> of a dict.
  (The source's variable \<open>image\<close> is \<open>image_t\<close> below: \<open>image\<close> is a constant of HOL.)
\<close>

definition image_of :: "'a features \<Rightarrow> error + 'a" where
  "image_of features =
     (case features of
        Tensor t \<Rightarrow> Inr t
      | Dict d \<Rightarrow>
          (case map_of d ''image'' of
             None \<Rightarrow> Inl (KeyError ''image'')
           | Some t \<Rightarrow> Inr t))"

text \<open>
  \<open>model_fn\<close> (lines 100-162) runs six stages in the order of the source; the four
  that are statements of \<open>model_fn\<close> itself are defined first.

  The guard of lines 103-104.
\<close>

definition first_guard :: "bool \<Rightarrow> string \<Rightarrow> error + unit" where
  "first_guard use_tpu mode =
     (if use_tpu \<and> mode = PREDICT then Inl (RuntimeError 104 TPU_PREDICT_MESSAGE)
      else Inr ())"

text \<open>The body of \<open>if mode == PREDICT\<close> (lines 112-125), with its own guard.\<close>

definition predict_branch ::
  "bool \<Rightarrow> keras_model \<Rightarrow> 'a \<Rightarrow> string \<Rightarrow> error + 'a estimator_spec option" where
  "predict_branch use_tpu model image_t mode =
     (if use_tpu then Inl (RuntimeError 113 TPU_PREDICT_MESSAGE)
      else
        let logits = Apply model (Given image_t) False;
            predictions =
              [(''classes'', argmax logits 1),
               (''probabilities'', softmax logits)]
        in Inr (Some (EstimatorSpec_predict mode predictions
                        [(''classify'', PredictOutput predictions)])))"

text \<open>The body of \<open>if mode == TRAIN\<close> (lines 127-147).\<close>

definition train_branch ::
  "bool \<Rightarrow> keras_model \<Rightarrow> 'a \<Rightarrow> 'a \<Rightarrow> string \<Rightarrow> error + 'a estimator_spec option" where
  "train_branch use_tpu model image_t labels mode =
     (let optimizer = AdamOptimizer LEARNING_RATE;
          logits = Apply model (Given image_t) True;
          loss = sparse_softmax_cross_entropy (Given labels) logits;
          train_op = minimize optimizer loss get_or_create_global_step
      in if use_tpu then Inr (Some (TPUEstimatorSpec_train mode loss train_op))
         else Inr (Some (EstimatorSpec_train mode loss train_op)))"

text \<open>The body of \<open>if mode == EVAL\<close> (lines 150-162).\<close>

definition eval_branch ::
  "bool \<Rightarrow> bool \<Rightarrow> keras_model \<Rightarrow> 'a \<Rightarrow> 'a \<Rightarrow> string
     \<Rightarrow> error + 'a estimator_spec option" where
  "eval_branch has_distribution_strategy use_tpu model image_t labels mode =
     (let logits = Apply model (Given image_t) False;
          loss = sparse_softmax_cross_entropy (Given labels) logits
      in if use_tpu then
           Inr (Some (TPUEstimatorSpec_eval mode loss
                        (Global ''metric_fn'', [Given labels, logits])))
         else
           Inr (Some (EstimatorSpec_eval mode loss
                        (metric_fn has_distribution_strategy (Given labels) logits))))"

text \<open>
  \<open>model_fn\<close>: the guard, \<open>create_model\<close>, the image, and the branch of the mode.
  The first argument is the framework state that \<open>metric_fn\<close> reads.  A mode that is
  none of the three keys falls off the end of the function, which returns \<open>None\<close>.
\<close>

definition model_fn ::
  "bool \<Rightarrow> 'a features \<Rightarrow> 'a \<Rightarrow> string \<Rightarrow> params \<Rightarrow> error + 'a estimator_spec option" where
  "model_fn has_distribution_strategy features labels mode params =
     (let use_tpu = params_use_tpu params in
      case first_guard use_tpu mode of
        Inl e \<Rightarrow> Inl e
      | Inr u \<Rightarrow>
          (case snd (create_model (params_data_format params) IMAGE_SIZE) of
             Inl e \<Rightarrow> Inl e
           | Inr model \<Rightarrow>
               (case image_of features of
                  Inl e \<Rightarrow> Inl e
                | Inr image_t \<Rightarrow>
                    if mode = PREDICT then predict_branch use_tpu model image_t mode
                    else if mode = TRAIN then train_branch use_tpu model image_t labels mode
                    else if mode = EVAL then
                      eval_branch has_distribution_strategy use_tpu model image_t labels mode
                    else Inr None)))"

subsection \<open>Flags and the estimator\<close>

text \<open>
  The attributes of the parsed flags that the module reads.  The parsers that declare
  them are not among the sources; each field has the type its use in \<open>mnist.py\<close>
  asks for: a flag compared with \<open>None\<close> is an option, a flag compared with a
  number is an integer.  The type \<open>'t\<close> of the stop threshold is left open: the
  module only hands it to \<open>past_stop_threshold\<close>.
\<close>

record 't flags =
  num_gpus :: int
  data_format :: "string option"
  inter_op_parallelism_threads :: int
  intra_op_parallelism_threads :: int
  tpu :: "string option"
  tpu_zone :: "string option"
  tpu_gcp_project :: "string option"
  model_dir :: string
  iterations_per_loop :: int
  num_tpu_shards :: int
  batch_size :: int
  hooks :: "string list"
  train_epochs :: int
  epochs_between_evals :: int
  stop_threshold :: "'t option"
  export_dir :: "string option"

text \<open>
  Framework objects of \<open>construct_estimator\<close>, with the arguments of the source:
  \<^item> \<open>ConfigProto inter_op_parallelism_threads intra_op_parallelism_threads
       allow_soft_placement log_device_placement\<close>
  \<^item> \<open>TPUClusterResolver tpu zone project\<close>
  \<^item> \<open>TPUConfig iterations_per_loop num_shards\<close>
  \<^item> \<open>OneDeviceStrategy device\<close>, \<open>MirroredStrategy num_gpus\<close>
  \<^item> \<open>TPU_RunConfig cluster model_dir session_config tpu_config\<close>
       (\<open>tf.contrib.tpu.RunConfig\<close>)
  \<^item> \<open>RunConfig model_dir train_distribute session_config\<close>
       (\<open>tf.estimator.RunConfig\<close>)
  \<^item> \<open>TPUEstimator model_fn use_tpu train_batch_size eval_batch_size params config\<close>
  \<^item> \<open>Estimator model_fn config params\<close>
\<close>

datatype session_config = ConfigProto int int bool bool

datatype cluster_resolver = TPUClusterResolver "string option" "string option" "string option"

datatype tpu_config = TPUConfig int int

datatype distribution = OneDeviceStrategy string | MirroredStrategy int

datatype run_config =
    TPU_RunConfig cluster_resolver string session_config tpu_config
  | RunConfig string distribution session_config

datatype estimator =
    TPUEstimator callable bool int int params run_config
  | Estimator callable run_config params

text \<open>\<open>construct_estimator\<close> (lines 165-219).\<close>

definition construct_estimator :: "'t flags \<Rightarrow> bool \<Rightarrow> estimator" where
  "construct_estimator flags use_tpu =
     (let use_gpu = num_gpus flags > 0;
          data_format_0 = data_format flags;
          data_format_1 =
            (case data_format_0 of
               None \<Rightarrow> (if use_gpu \<or> use_tpu then ''channels_first'' else ''channels_last'')
             | Some d \<Rightarrow> d);
          params = \<lparr>params_use_tpu = use_tpu, params_data_format = data_format_1\<rparr>;
          session_config =
            ConfigProto (inter_op_parallelism_threads flags)
              (intra_op_parallelism_threads flags) True True
      in if use_tpu then
           (let tpu_cluster_resolver =
                  TPUClusterResolver (tpu flags) (tpu_zone flags) (tpu_gcp_project flags);
                run_config =
                  TPU_RunConfig tpu_cluster_resolver (model_dir flags) session_config
                    (TPUConfig (iterations_per_loop flags) (num_tpu_shards flags))
            in TPUEstimator (Global ''model_fn'') True (batch_size flags) (batch_size flags)
                 params run_config)
         else
           (let distribution =
                  (if num_gpus flags = 0 then OneDeviceStrategy ''device:CPU:0''
                   else if num_gpus flags = 1 then OneDeviceStrategy ''device:GPU:0''
                   else MirroredStrategy (num_gpus flags));
                run_config = RunConfig (model_dir flags) distribution session_config
            in Estimator (Global ''model_fn'') run_config params))"

text \<open>What an estimator was built with.\<close>

fun estimator_params :: "estimator \<Rightarrow> params" where
  "estimator_params (TPUEstimator f u tb eb p c) = p"
| "estimator_params (Estimator f c p) = p"

fun estimator_config :: "estimator \<Rightarrow> run_config" where
  "estimator_config (TPUEstimator f u tb eb p c) = c"
| "estimator_config (Estimator f c p) = c"

subsection \<open>The argument parser\<close>

text \<open>
  \<open>MNISTArgParser.__init__\<close> (lines 254-267) hands four parent parsers to
  \<open>base.Parser.__init__\<close> and sets four defaults.  The parent parsers are classes of
  \<open>official/utils/arg_parsers\<close>, not among the sources; they are kept as
  constructor calls with the keyword arguments of the source:
  \<open>BaseParser multi_gpu num_gpu\<close> and \<open>accelerator_Parser simple_help num_gpus tpu\<close>.
\<close>

datatype parent_parser =
    BaseParser bool bool
  | accelerator_Parser bool bool bool
  | ImageModelParser
  | ExportParser

datatype default_value = Str string | Num int

record parser =
  parents :: "parent_parser list"
  simple_help :: bool
  defaults :: "(string \<times> default_value) list"

definition MNISTArgParser :: "bool \<Rightarrow> parser" where
  "MNISTArgParser simple_help_arg =
     \<lparr>parents =
        [BaseParser False False,
         accelerator_Parser simple_help_arg True True,
         ImageModelParser,
         ExportParser],
      simple_help = simple_help_arg,
      defaults =
        [(''data_dir'', Str ''/tmp/mnist_data''),
         (''model_dir'', Str ''/tmp/mnist_model''),
         (''batch_size'', Num 100),
         (''train_epochs'', Num 40)]\<rparr>"

subsection \<open>The module's namespace\<close>

text \<open>
  The names bound at module level when \<open>main\<close> runs: the three \<open>__future__\<close>
  features, the imported modules (lines 16-30) and the module's own assignment,
  functions and class.  A free name of a function body is looked up here when the
  statement that uses it runs; a name that is not bound raises \<open>NameError\<close>.
\<close>

definition mnist_globals :: "string list" where
  "mnist_globals =
     [''absolute_import'', ''division'', ''print_function'',
      ''argparse'', ''sys'', ''tf'',
      ''mnist_dataset'', ''accelerator'', ''base'', ''parsers'',
      ''hooks_helper'', ''model_helpers'',
      ''LEARNING_RATE'', ''create_model'', ''metric_fn'', ''model_fn'',
      ''construct_estimator'', ''main'', ''MNISTArgParser'']"

definition load_global :: "string list \<Rightarrow> string \<Rightarrow> error + callable" where
  "load_global g name = (if name \<in> set g then Inr (Global name) else Inl (NameError name))"

subsection \<open>The driver\<close>

text \<open>
  What \<open>main\<close> needs from outside the module:
  \<^item> \<open>parse_args p args\<close>: the flags the parser \<open>p\<close> reads from \<open>args\<close>, or the
    error it leaves with;
  \<^item> \<open>evaluate i\<close>: the dict of results the estimator's \<open>i\<close>-th call of
    \<open>evaluate\<close> returns (counted from 0);
  \<^item> \<open>past_stop_threshold\<close>: the helper of \<open>official/utils/misc/model_helpers.py\<close>,
    not among the sources.
  The type \<open>'m\<close> of a metric's value is left open.
\<close>

record ('m, 't) framework =
  parse_args :: "parser \<Rightarrow> string list \<Rightarrow> error + 't flags"
  evaluate :: "nat \<Rightarrow> (string \<times> 'm) list"
  past_stop_threshold :: "'t option \<Rightarrow> 'm \<Rightarrow> error + bool"

text \<open>
  The calls \<open>main\<close> makes, in the order it makes them:
  \<^item> \<open>Parse_args parser args\<close> (line 223)
  \<^item> \<open>Construct_estimator e\<close>: \<open>construct_estimator\<close> returned \<open>e\<close> (line 226)
  \<^item> \<open>Get_train_hooks hooks batch_size\<close> (line 229)
  \<^item> \<open>Train input_fn\<close> (line 234), \<open>Evaluate input_fn\<close> (line 235)
  \<^item> \<open>Print eval_results\<close> (line 236)
  \<^item> \<open>Placeholder dtype shape\<close> (line 244; \<open>None\<close> is an unknown dimension)
  \<^item> \<open>Build_raw_serving_input_receiver_fn keys\<close> (line 245)
  \<^item> \<open>Export_savedmodel export_dir\<close> (line 248)
\<close>

datatype 'm event =
    Parse_args parser "string list"
  | Construct_estimator estimator
  | Get_train_hooks "string list" int
  | Train callable
  | Evaluate callable
  | Print "(string \<times> 'm) list"
  | Placeholder string "int option list"
  | Build_raw_serving_input_receiver_fn "string list"
  | Export_savedmodel string

text \<open>
  The loop of lines 233-240, with \<open>n\<close> iterations of the \<open>range\<close> left and \<open>i\<close>
  evaluations done.  It returns the calls it made and the error that ended it, if any.
  The arguments of a call are evaluated before the call: an unbound \<open>train_input_fn\<close>
  ends \<open>main\<close> before \<open>train\<close> is called.
\<close>

fun train_eval_loop ::
  "string list \<Rightarrow> ('m, 't) framework \<Rightarrow> 't flags \<Rightarrow> nat \<Rightarrow> nat \<Rightarrow> 'm event list \<times> error option" where
  "train_eval_loop g fw flags 0 i = ([], None)"
| "train_eval_loop g fw flags (Suc n) i =
     (case load_global g ''train_input_fn'' of
        Inl e \<Rightarrow> ([], Some e)
      | Inr train_input_fn \<Rightarrow>
          (case load_global g ''eval_input_fn'' of
             Inl e \<Rightarrow> ([Train train_input_fn], Some e)
           | Inr eval_input_fn \<Rightarrow>
               (let eval_results = evaluate fw i;
                    made = [Train train_input_fn, Evaluate eval_input_fn, Print eval_results]
                in case map_of eval_results ''accuracy'' of
                     None \<Rightarrow> (made, Some (KeyError ''accuracy''))
                   | Some acc \<Rightarrow>
                       (case past_stop_threshold fw (stop_threshold flags) acc of
                          Inl e \<Rightarrow> (made, Some e)
                        | Inr True \<Rightarrow> (made, None)
                        | Inr False \<Rightarrow>
                            (case train_eval_loop g fw flags n (Suc i) of
                               (rest, r) \<Rightarrow> (made @ rest, r))))))"

text \<open>Lines 243-248: the export, when an export directory is given.\<close>

definition export_model :: "'t flags \<Rightarrow> 'm event list" where
  "export_model flags =
     (case export_dir flags of
        None \<Rightarrow> []
      | Some d \<Rightarrow>
          [Placeholder ''float32'' [None, Some 28, Some 28],
           Build_raw_serving_input_receiver_fn [''image''],
           Export_savedmodel d])"

text \<open>
  \<open>main\<close> (lines 221-248) in a namespace \<open>g\<close>.  \<open>argv[1:]\<close> is \<open>drop 1 argv\<close>;
  \<open>//\<close> is the floor division of integers and raises on a zero divisor; \<open>range\<close>
  of a negative count is empty.
\<close>

definition main_in ::
  "string list \<Rightarrow> ('m, 't) framework \<Rightarrow> string list \<Rightarrow> 'm event list \<times> error option" where
  "main_in g fw argv =
     (let parser = MNISTArgParser True;
          args = drop 1 argv
      in case parse_args fw parser args of
           Inl e \<Rightarrow> ([Parse_args parser args], Some e)
         | Inr flags \<Rightarrow>
             (let use_tpu = (tpu flags \<noteq> None);
                  mnist_classifier = construct_estimator flags use_tpu;
                  before =
                    [Parse_args parser args,
                     Construct_estimator mnist_classifier,
                     Get_train_hooks (hooks flags) (batch_size flags)]
              in if epochs_between_evals flags = 0 then (before, Some ZeroDivisionError)
                 else
                   case train_eval_loop g fw flags
                          (nat (train_epochs flags div epochs_between_evals flags)) 0 of
                     (looped, Some e) \<Rightarrow> (before @ looped, Some e)
                   | (looped, None) \<Rightarrow> (before @ looped @ export_model flags, None)))"

text \<open>\<open>main\<close> as the module runs it: in the module's own namespace.\<close>

definition main :: "('m, 't) framework \<Rightarrow> string list \<Rightarrow> 'm event list \<times> error option" where
  "main fw argv = main_in mnist_globals fw argv"

subsection \<open>A sample run\<close>

text \<open>
  Concrete inputs on which the theorems below are evaluated: flags as a command line
  without options gives them where the module sets the default (\<open>model_dir\<close>,
  \<open>batch_size\<close>, \<open>train_epochs\<close>), one evaluation per epoch, no accelerator, no
  stop threshold and no export directory; and a framework that parses every command
  line to these flags, reports the same three metrics at every evaluation, and whose
  threshold test never stops the loop.
\<close>

definition sample_flags :: "int flags" where
  "sample_flags =
     \<lparr>num_gpus = 0, data_format = None,
      inter_op_parallelism_threads = 0, intra_op_parallelism_threads = 0,
      tpu = None, tpu_zone = None, tpu_gcp_project = None,
      model_dir = ''/tmp/mnist_model'',
      iterations_per_loop = 100, num_tpu_shards = 8,
      batch_size = 100, hooks = [''LoggingTensorHook''],
      train_epochs = 40, epochs_between_evals = 1,
      stop_threshold = None, export_dir = None\<rparr>"

definition sample_framework :: "int flags \<Rightarrow> (int, int) framework" where
  "sample_framework fl =
     \<lparr>parse_args = (\<lambda>p args. Inr fl),
      evaluate = (\<lambda>i. [(''accuracy'', 0), (''loss'', 0), (''global_step'', 0)]),
      past_stop_threshold = (\<lambda>t m. Inr False)\<rparr>"

subsection \<open>The loop with its input functions bound\<close>

text \<open>
  The calls of one pass through the loop body (lines 234-236), the \<open>i\<close>-th
  evaluation reporting \<open>evaluate fw i\<close>; and a namespace that extends the module's
  with the two input functions the loop names.
\<close>

definition loop_pass :: "('m, 't) framework \<Rightarrow> nat \<Rightarrow> 'm event list" where
  "loop_pass fw i =
     [Train (Global ''train_input_fn''), Evaluate (Global ''eval_input_fn''),
      Print (evaluate fw i)]"

definition patched_globals :: "string list" where
  "patched_globals = mnist_globals @ [''train_input_fn'', ''eval_input_fn'']"

subsection \<open>The flags a run depends on\<close>



text \<open>
  A second sample framework, whose evaluations report an accuracy of 99 and whose
  threshold test stops the loop once the accuracy has reached a given threshold.
\<close>

definition threshold_framework :: "int flags \<Rightarrow> (int, int) framework" where
  "threshold_framework fl =
     \<lparr>parse_args = (\<lambda>p args. Inr fl),
      evaluate = (\<lambda>i. [(''accuracy'', 99), (''loss'', 0), (''global_step'', 0)]),
      past_stop_threshold =
        (\<lambda>t m. case t of None \<Rightarrow> Inr False | Some th \<Rightarrow> Inr (th \<le> m))\<rparr>"

section \<open>Properties\<close>

lemma input_shape_channels_first:
  "input_shape ''channels_first'' s = Inr [1, s, s]"
  by (simp add: input_shape_def)

lemma input_shape_channels_last:
  "input_shape ''channels_last'' s = Inr [s, s, 1]"
  by (simp add: input_shape_def)

text \<open>
  C2.  For each of the two data formats, \<open>create_model\<close> returns the sequential model
  whose layers are, in order: the reshape to the input shape, a 32-filter 5x5
  same-padded ReLU convolution, the 2x2 max-pooling, a 64-filter 5x5 same-padded ReLU
  convolution, the 2x2 max-pooling, a flatten, a 1024-unit ReLU dense layer, a dropout
  of rate 0.4, and a 10-unit dense layer with no activation.
\<close>

theorem create_model_layers:
  assumes "df = ''channels_first'' \<or> df = ''channels_last''"
  shows "snd (create_model df image_size) =
     Inr (Sequential
       [Reshape (if df = ''channels_first''
                 then [1, image_size, image_size] else [image_size, image_size, 1]),
        Conv2D 32 5 ''same'' df (Some relu),
        MaxPooling2D (2, 2) (2, 2) ''same'' df,
        Conv2D 64 5 ''same'' df (Some relu),
        MaxPooling2D (2, 2) (2, 2) ''same'' df,
        Flatten,
        Dense 1024 (Some relu),
        Dropout (Decimal 4 (- 1)),
        Dense 10 None])"
  using assms by (auto simp: create_model_def input_shape_def Let_def)

theorem create_model_layers_witness:
  "snd (create_model ''channels_last'' 28) =
     Inr (Sequential
       [Reshape [28, 28, 1],
        Conv2D 32 5 ''same'' ''channels_last'' (Some relu),
        MaxPooling2D (2, 2) (2, 2) ''same'' ''channels_last'',
        Conv2D 64 5 ''same'' ''channels_last'' (Some relu),
        MaxPooling2D (2, 2) (2, 2) ''same'' ''channels_last'',
        Flatten,
        Dense 1024 (Some relu),
        Dropout (Decimal 4 (- 1)),
        Dense 10 None])"
  using create_model_layers [of "''channels_last''" 28] by simp

subsection \<open>The guards of \<open>model_fn\<close>\<close>

lemma create_model_not_RuntimeError:
  "snd (create_model df s) \<noteq> Inl (RuntimeError ln m)"
  by (simp add: create_model_def input_shape_def Let_def)

lemma image_of_not_RuntimeError:
  "image_of f \<noteq> Inl (RuntimeError ln m)"
  by (simp add: image_of_def split: features.split option.split)





lemma train_branch_returns:
  "\<exists>r. train_branch u model img l md = Inr r"
  by (simp add: train_branch_def Let_def)

lemma eval_branch_returns:
  "\<exists>r. eval_branch h u model img l md = Inr r"
  by (simp add: eval_branch_def Let_def)

lemma model_fn_stages:
  "model_fn h f l mode p =
     (case first_guard (params_use_tpu p) mode of
        Inl e \<Rightarrow> Inl e
      | Inr u \<Rightarrow>
          (case snd (create_model (params_data_format p) IMAGE_SIZE) of
             Inl e \<Rightarrow> Inl e
           | Inr model \<Rightarrow>
               (case image_of f of
                  Inl e \<Rightarrow> Inl e
                | Inr image_t \<Rightarrow>
                    if mode = PREDICT then predict_branch (params_use_tpu p) model image_t mode
                    else if mode = TRAIN then
                      train_branch (params_use_tpu p) model image_t l mode
                    else if mode = EVAL then
                      eval_branch h (params_use_tpu p) model image_t l mode
                    else Inr None)))"
  by (simp add: model_fn_def Let_def)

lemma model_fn_first_guard:
  "params_use_tpu p \<and> mode = PREDICT \<Longrightarrow>
     model_fn h f l mode p = Inl (RuntimeError 104 TPU_PREDICT_MESSAGE)"
  by (simp add: model_fn_stages first_guard_def)

lemma model_fn_past_first_guard:
  assumes "\<not> (params_use_tpu p \<and> mode = PREDICT)"
  shows "model_fn h f l mode p \<noteq> Inl (RuntimeError ln m)"
proof -
  have guard: "first_guard (params_use_tpu p) mode = Inr ()"
    using assms by (auto simp: first_guard_def)
  show ?thesis
  proof (cases "snd (create_model (params_data_format p) IMAGE_SIZE)")
    case (Inl e)
    then have "model_fn h f l mode p = Inl e"
      by (simp add: model_fn_stages guard)
    then show ?thesis
      using Inl create_model_not_RuntimeError [of "params_data_format p" IMAGE_SIZE ln m]
      by simp
  next
    case (Inr model)
    show ?thesis
    proof (cases "image_of f")
      case (Inl e)
      then have "model_fn h f l mode p = Inl e"
        using Inr by (simp add: model_fn_stages guard)
      then show ?thesis
        using Inl image_of_not_RuntimeError [of f ln m] by simp
    next
      case inner: (Inr image_t)
      have "\<exists>r. model_fn h f l mode p = Inr r"
        using assms Inr inner
          train_branch_returns [of "params_use_tpu p" model image_t l mode]
          eval_branch_returns [of h "params_use_tpu p" model image_t l mode]
        by (auto simp: model_fn_stages guard predict_branch_def Let_def)
      then show ?thesis by auto
    qed
  qed
qed

lemma model_fn_RuntimeError_cases:
  assumes "model_fn h f l mode p = Inl (RuntimeError ln m)"
  shows "params_use_tpu p \<and> mode = PREDICT \<and> ln = 104 \<and> m = TPU_PREDICT_MESSAGE"
proof (cases "params_use_tpu p \<and> mode = PREDICT")
  case True
  then show ?thesis using assms model_fn_first_guard [of p mode h f l] by simp
next
  case False
  then show ?thesis using assms model_fn_past_first_guard [of p mode h f l ln m] by simp
qed



text \<open>
  C6.  The guard inside the \<open>PREDICT\<close> branch (line 113) never raises: whenever the
  mode is \<open>PREDICT\<close> and \<open>use_tpu\<close> is true, the first guard (line 104) has raised
  already, so no call of \<open>model_fn\<close> ends in the \<open>RuntimeError\<close> of line 113.
\<close>

theorem model_fn_second_guard_dead:
  "model_fn h f l mode p \<noteq> Inl (RuntimeError 113 m)
   \<and> (mode = PREDICT \<and> params_use_tpu p
        \<longrightarrow> model_fn h f l mode p = Inl (RuntimeError 104 TPU_PREDICT_MESSAGE))"
proof
  show "model_fn h f l mode p \<noteq> Inl (RuntimeError 113 m)"
    using model_fn_RuntimeError_cases [of h f l mode p 113 m] by auto
next
  show "mode = PREDICT \<and> params_use_tpu p
          \<longrightarrow> model_fn h f l mode p = Inl (RuntimeError 104 TPU_PREDICT_MESSAGE)"
    using model_fn_first_guard [of p mode h f l] by simp
qed

theorem model_fn_second_guard_dead_witness:
  "model_fn True (Dict [(''image'', 7::nat)]) 3 PREDICT
       \<lparr>params_use_tpu = True, params_data_format = ''channels_last''\<rparr>
     \<noteq> Inl (RuntimeError 113 TPU_PREDICT_MESSAGE)
   \<and> model_fn True (Dict [(''image'', 7::nat)]) 3 PREDICT
       \<lparr>params_use_tpu = True, params_data_format = ''channels_last''\<rparr>
     = Inl (RuntimeError 104 TPU_PREDICT_MESSAGE)"
  using model_fn_second_guard_dead [of True "Dict [(''image'', 7::nat)]" 3 PREDICT
      "\<lparr>params_use_tpu = True, params_data_format = ''channels_last''\<rparr>"
      TPU_PREDICT_MESSAGE]
  by simp

subsection \<open>The model\<close>

text \<open>
  C7.  \<open>create_model\<close> returns a model exactly for the two documented data formats;
  for every other value the assertion of line 59 fails, and no layer has been
  constructed when it does.
\<close>

theorem create_model_total_on_formats:
  "((\<exists>m. snd (create_model df s) = Inr m) = (df = ''channels_first'' \<or> df = ''channels_last''))
   \<and> (\<not> (df = ''channels_first'' \<or> df = ''channels_last'')
        \<longrightarrow> create_model df s = ([], Inl AssertionError))"
  by (simp add: create_model_def input_shape_def Let_def)

theorem create_model_total_on_formats_witness:
  "(\<exists>m. snd (create_model ''channels_first'' 28) = Inr m)
   \<and> create_model ''NCHW'' 28 = ([], Inl AssertionError)"
  using create_model_total_on_formats [of "''channels_first''" 28]
    create_model_total_on_formats [of "''NCHW''" 28]
  by simp

text \<open>
  C5.  The model maps a square single-channel image to ten logits: for each data
  format the first layer reshapes to one channel and two sides of \<open>image_size\<close>
  (\<open>[1, s, s]\<close> channels first, \<open>[s, s, 1]\<close> channels last), which is 28 by
  default, and the last layer is the 10-unit dense layer; the placeholder that
  \<open>main\<close> declares for the export has shape \<open>[None, 28, 28]\<close>.
\<close>

theorem image_to_logits_shapes:
  "(df = ''channels_first'' \<longrightarrow>
      (\<exists>ls. snd (create_model df s) = Inr (Sequential ls)
          \<and> hd ls = Reshape [1, s, s] \<and> last ls = Dense 10 None))
   \<and> (df = ''channels_last'' \<longrightarrow>
      (\<exists>ls. snd (create_model df s) = Inr (Sequential ls)
          \<and> hd ls = Reshape [s, s, 1] \<and> last ls = Dense 10 None))
   \<and> input_shape ''channels_first'' IMAGE_SIZE = Inr [1, 28, 28]
   \<and> input_shape ''channels_last'' IMAGE_SIZE = Inr [28, 28, 1]
   \<and> (export_dir flags = Some d \<longrightarrow>
        hd (export_model flags :: 'm event list)
          = Placeholder ''float32'' [None, Some 28, Some 28]
        \<and> (\<forall>dt sh. Placeholder dt sh \<in> set (export_model flags :: 'm event list)
              \<longrightarrow> sh = [None, Some 28, Some 28]))"
  by (auto simp: create_model_def input_shape_def Let_def IMAGE_SIZE_def export_model_def)

theorem image_to_logits_shapes_witness:
  "(\<exists>ls. snd (create_model ''channels_first'' 28) = Inr (Sequential ls)
        \<and> hd ls = Reshape [1, 28, 28] \<and> last ls = Dense 10 None)
   \<and> hd (export_model (sample_flags\<lparr>export_dir := Some ''/tmp/mnist_saved_model''\<rparr>)
          :: int event list)
       = Placeholder ''float32'' [None, Some 28, Some 28]"
proof -
  have h:
    "(''channels_first'' = ''channels_first'' \<longrightarrow>
        (\<exists>ls. snd (create_model ''channels_first'' 28) = Inr (Sequential ls)
            \<and> hd ls = Reshape [1, 28, 28] \<and> last ls = Dense 10 None))
     \<and> (''channels_first'' = ''channels_last'' \<longrightarrow>
        (\<exists>ls. snd (create_model ''channels_first'' 28) = Inr (Sequential ls)
            \<and> hd ls = Reshape [28, 28, 1] \<and> last ls = Dense 10 None))
     \<and> input_shape ''channels_first'' IMAGE_SIZE = Inr [1, 28, 28]
     \<and> input_shape ''channels_last'' IMAGE_SIZE = Inr [28, 28, 1]
     \<and> (export_dir (sample_flags\<lparr>export_dir := Some ''/tmp/mnist_saved_model''\<rparr>)
            = Some ''/tmp/mnist_saved_model'' \<longrightarrow>
          hd (export_model (sample_flags\<lparr>export_dir := Some ''/tmp/mnist_saved_model''\<rparr>)
                :: int event list)
            = Placeholder ''float32'' [None, Some 28, Some 28]
          \<and> (\<forall>dt sh. Placeholder dt sh
                 \<in> set (export_model
                          (sample_flags\<lparr>export_dir := Some ''/tmp/mnist_saved_model''\<rparr>)
                        :: int event list)
                \<longrightarrow> sh = [None, Some 28, Some 28]))"
    by (rule image_to_logits_shapes)
  then show ?thesis by simp
qed

subsection \<open>The estimator\<close>

text \<open>
  In the module's own namespace the loop stops at its first statement: the name
  \<open>train_input_fn\<close> is not bound.
\<close>

lemma train_input_fn_unbound:
  "load_global mnist_globals ''train_input_fn'' = Inl (NameError ''train_input_fn'')"
  by (simp add: load_global_def mnist_globals_def)

lemma train_eval_loop_unbound:
  "train_eval_loop mnist_globals fw flags (Suc n) i = ([], Some (NameError ''train_input_fn''))"
  by (simp add: train_input_fn_unbound)

lemma train_eval_loop_module:
  "train_eval_loop mnist_globals fw flags n i =
     (if n = 0 then ([], None) else ([], Some (NameError ''train_input_fn'')))"
  by (cases n) (simp_all add: train_input_fn_unbound)

lemma main_parse_error:
  "parse_args fw (MNISTArgParser True) (drop 1 argv) = Inl e \<Longrightarrow>
     main_in g fw argv = ([Parse_args (MNISTArgParser True) (drop 1 argv)], Some e)"
  by (simp add: main_in_def Let_def)

lemma main_module:
  assumes "parse_args fw (MNISTArgParser True) (drop 1 argv) = Inr flags"
  shows "main fw argv =
     (let before = [Parse_args (MNISTArgParser True) (drop 1 argv),
                    Construct_estimator (construct_estimator flags (tpu flags \<noteq> None)),
                    Get_train_hooks (hooks flags) (batch_size flags)]
      in if epochs_between_evals flags = 0 then (before, Some ZeroDivisionError)
         else if nat (train_epochs flags div epochs_between_evals flags) = 0
              then (before @ export_model flags, None)
              else (before, Some (NameError ''train_input_fn'')))"
  using assms by (simp add: main_def main_in_def Let_def train_eval_loop_module)

text \<open>
  C3.  \<open>construct_estimator\<close> chooses the estimator from the flags: with \<open>use_tpu\<close> a
  \<open>TPUEstimator\<close> whose run configuration holds a \<open>TPUClusterResolver\<close>; otherwise
  an \<open>Estimator\<close> whose run configuration trains on the one device
  \<open>device:CPU:0\<close> when \<open>num_gpus = 0\<close>, on the one device \<open>device:GPU:0\<close> when
  \<open>num_gpus = 1\<close>, and mirrored over \<open>num_gpus\<close> GPUs when \<open>num_gpus > 1\<close>.
  \<open>main\<close> calls it with \<open>use_tpu = (flags.tpu is not None)\<close>.
\<close>

theorem construct_estimator_selection:
  "(use_tpu \<longrightarrow>
      construct_estimator flags use_tpu =
        TPUEstimator (Global ''model_fn'') True (batch_size flags) (batch_size flags)
          (estimator_params (construct_estimator flags use_tpu))
          (TPU_RunConfig
             (TPUClusterResolver (tpu flags) (tpu_zone flags) (tpu_gcp_project flags))
             (model_dir flags)
             (ConfigProto (inter_op_parallelism_threads flags)
                (intra_op_parallelism_threads flags) True True)
             (TPUConfig (iterations_per_loop flags) (num_tpu_shards flags))))
   \<and> (\<not> use_tpu \<longrightarrow>
      (\<exists>distribution.
          construct_estimator flags use_tpu =
            Estimator (Global ''model_fn'')
              (RunConfig (model_dir flags) distribution
                 (ConfigProto (inter_op_parallelism_threads flags)
                    (intra_op_parallelism_threads flags) True True))
              (estimator_params (construct_estimator flags use_tpu))
          \<and> (num_gpus flags = 0 \<longrightarrow> distribution = OneDeviceStrategy ''device:CPU:0'')
          \<and> (num_gpus flags = 1 \<longrightarrow> distribution = OneDeviceStrategy ''device:GPU:0'')
          \<and> (num_gpus flags > 1 \<longrightarrow> distribution = MirroredStrategy (num_gpus flags))))
   \<and> (parse_args fw (MNISTArgParser True) (drop 1 argv) = Inr flags \<longrightarrow>
        take 3 (fst (main fw argv)) =
          [Parse_args (MNISTArgParser True) (drop 1 argv),
           Construct_estimator (construct_estimator flags (tpu flags \<noteq> None)),
           Get_train_hooks (hooks flags) (batch_size flags)])"
proof (intro conjI impI)
  assume use_tpu
  then show "construct_estimator flags use_tpu =
        TPUEstimator (Global ''model_fn'') True (batch_size flags) (batch_size flags)
          (estimator_params (construct_estimator flags use_tpu))
          (TPU_RunConfig
             (TPUClusterResolver (tpu flags) (tpu_zone flags) (tpu_gcp_project flags))
             (model_dir flags)
             (ConfigProto (inter_op_parallelism_threads flags)
                (intra_op_parallelism_threads flags) True True)
             (TPUConfig (iterations_per_loop flags) (num_tpu_shards flags)))"
    by (simp add: construct_estimator_def Let_def)
next
  assume "\<not> use_tpu"
  then show "\<exists>distribution.
          construct_estimator flags use_tpu =
            Estimator (Global ''model_fn'')
              (RunConfig (model_dir flags) distribution
                 (ConfigProto (inter_op_parallelism_threads flags)
                    (intra_op_parallelism_threads flags) True True))
              (estimator_params (construct_estimator flags use_tpu))
          \<and> (num_gpus flags = 0 \<longrightarrow> distribution = OneDeviceStrategy ''device:CPU:0'')
          \<and> (num_gpus flags = 1 \<longrightarrow> distribution = OneDeviceStrategy ''device:GPU:0'')
          \<and> (num_gpus flags > 1 \<longrightarrow> distribution = MirroredStrategy (num_gpus flags))"
    by (simp add: construct_estimator_def Let_def)
next
  assume "parse_args fw (MNISTArgParser True) (drop 1 argv) = Inr flags"
  then show "take 3 (fst (main fw argv)) =
          [Parse_args (MNISTArgParser True) (drop 1 argv),
           Construct_estimator (construct_estimator flags (tpu flags \<noteq> None)),
           Get_train_hooks (hooks flags) (batch_size flags)]"
    by (simp add: main_module Let_def)
qed

theorem construct_estimator_selection_witness:
  "construct_estimator (sample_flags\<lparr>tpu := Some ''grpc://10.0.0.2:8470''\<rparr>) True =
     TPUEstimator (Global ''model_fn'') True 100 100
       \<lparr>params_use_tpu = True, params_data_format = ''channels_first''\<rparr>
       (TPU_RunConfig (TPUClusterResolver (Some ''grpc://10.0.0.2:8470'') None None)
          ''/tmp/mnist_model'' (ConfigProto 0 0 True True) (TPUConfig 100 8))
   \<and> estimator_config (construct_estimator sample_flags False) =
       RunConfig ''/tmp/mnist_model'' (OneDeviceStrategy ''device:CPU:0'')
         (ConfigProto 0 0 True True)
   \<and> estimator_config (construct_estimator (sample_flags\<lparr>num_gpus := 4\<rparr>) False) =
       RunConfig ''/tmp/mnist_model'' (MirroredStrategy 4) (ConfigProto 0 0 True True)
   \<and> take 3 (fst (main (sample_framework sample_flags) [''mnist.py''])) =
       [Parse_args (MNISTArgParser True) [],
        Construct_estimator (construct_estimator sample_flags False),
        Get_train_hooks [''LoggingTensorHook''] 100]"
  using
    construct_estimator_selection [of True "sample_flags\<lparr>tpu := Some ''grpc://10.0.0.2:8470''\<rparr>"
      "sample_framework sample_flags" "[''mnist.py'']"]
    construct_estimator_selection [of False sample_flags
      "sample_framework sample_flags" "[''mnist.py'']"]
    construct_estimator_selection [of False "sample_flags\<lparr>num_gpus := 4\<rparr>"
      "sample_framework sample_flags" "[''mnist.py'']"]
  by (auto simp: sample_flags_def sample_framework_def construct_estimator_def Let_def)

text \<open>
  C8.  Without a \<open>data_format\<close> flag, \<open>construct_estimator\<close> passes
  \<open>'channels_first'\<close> exactly when \<open>num_gpus > 0\<close> or \<open>use_tpu\<close>, and
  \<open>'channels_last'\<close> otherwise; a given \<open>data_format\<close> flag is passed unchanged.
\<close>

theorem construct_estimator_data_format:
  "(data_format flags = None \<longrightarrow>
      (params_data_format (estimator_params (construct_estimator flags use_tpu))
           = ''channels_first''
         \<longleftrightarrow> (num_gpus flags > 0 \<or> use_tpu))
    \<and> (params_data_format (estimator_params (construct_estimator flags use_tpu))
           = ''channels_last''
         \<longleftrightarrow> \<not> (num_gpus flags > 0 \<or> use_tpu)))
   \<and> (\<forall>d. data_format flags = Some d \<longrightarrow>
        params_data_format (estimator_params (construct_estimator flags use_tpu)) = d)"
  by (auto simp: construct_estimator_def Let_def)

theorem construct_estimator_data_format_witness:
  "params_data_format (estimator_params (construct_estimator sample_flags False))
     = ''channels_last''
   \<and> params_data_format
       (estimator_params (construct_estimator (sample_flags\<lparr>num_gpus := 2\<rparr>) False))
     = ''channels_first''
   \<and> params_data_format
       (estimator_params
          (construct_estimator (sample_flags\<lparr>data_format := Some ''channels_last''\<rparr>) True))
     = ''channels_last''"
  using
    construct_estimator_data_format [of sample_flags False]
    construct_estimator_data_format [of "sample_flags\<lparr>num_gpus := 2\<rparr>" False]
    construct_estimator_data_format
      [of "sample_flags\<lparr>data_format := Some ''channels_last''\<rparr>" True]
  by (simp add: sample_flags_def)

subsection \<open>The command line\<close>









lemma loop_threshold_none:
  "train_eval_loop patched_globals (threshold_framework fl)
      (sample_flags\<lparr>stop_threshold := None\<rparr>) (Suc (Suc 0)) 0
   = (loop_pass (threshold_framework fl) 0 @ loop_pass (threshold_framework fl) 1, None)"
  by (simp add: patched_globals_def load_global_def threshold_framework_def loop_pass_def
      Let_def sample_flags_def)

lemma loop_threshold_some:
  "train_eval_loop patched_globals (threshold_framework fl)
      (sample_flags\<lparr>stop_threshold := Some 50\<rparr>) (Suc (Suc 0)) 0
   = (loop_pass (threshold_framework fl) 0, None)"
  by (simp add: patched_globals_def load_global_def threshold_framework_def loop_pass_def
      Let_def sample_flags_def)





subsection \<open>The order of the calls of \<open>main\<close>\<close>

text \<open>
  In the module's own namespace no run of \<open>main\<close> reaches a call of \<open>train\<close>.
\<close>

lemma main_never_trains: "Train f \<notin> set (fst (main fw argv))"
proof (cases "parse_args fw (MNISTArgParser True) (drop 1 argv)")
  case (Inl e)
  then show ?thesis by (simp add: main_def main_parse_error)
next
  case (Inr flags)
  then show ?thesis by (simp add: main_module Let_def export_model_def split: option.split)
qed

text \<open>
  C4.  The run of \<open>main\<close> on the sample command line: the flags are parsed, the
  estimator is constructed and the hooks are fetched; the first pass through the loop
  then ends with \<open>NameError\<close> at \<open>train_input_fn\<close>, before any call of \<open>train\<close>,
  \<open>evaluate\<close> or the export.
\<close>

theorem main_sample_run:
  "main (sample_framework sample_flags) [''mnist.py''] =
     ([Parse_args (MNISTArgParser True) [],
       Construct_estimator (construct_estimator sample_flags False),
       Get_train_hooks [''LoggingTensorHook''] 100],
      Some (NameError ''train_input_fn''))"
  by (simp add: main_module [of _ _ sample_flags] Let_def sample_framework_def sample_flags_def)

subsection \<open>The order of the calls once the input functions are bound\<close>

text \<open>
  The loop body is written to call \<open>train\<close>, then \<open>evaluate\<close>, then \<open>print\<close>.
  In any namespace that binds \<open>train_input_fn\<close> and \<open>eval_input_fn\<close> it does so.
\<close>

lemma load_global_bound: "name \<in> set g \<Longrightarrow> load_global g name = Inr (Global name)"
  by (simp add: load_global_def)

lemma passes_unroll:
  "concat (map f [i..<i + Suc k]) = f i @ concat (map f [Suc i..<Suc i + k])"
proof -
  have "i < Suc i + k" by simp
  then have "[i..<Suc i + k] = i # [Suc i..<Suc i + k]" by (rule upt_conv_Cons)
  moreover have "i + Suc k = Suc i + k" by simp
  ultimately have "[i..<i + Suc k] = i # [Suc i..<Suc i + k]" by (simp only:)
  then show ?thesis by (simp only: list.map concat.simps)
qed

lemma train_eval_loop_step:
  assumes "''train_input_fn'' \<in> set g" and "''eval_input_fn'' \<in> set g"
  shows "fst (train_eval_loop g fw flags (Suc n) i) = loop_pass fw i
      \<or> train_eval_loop g fw flags (Suc n) i
          = (loop_pass fw i @ fst (train_eval_loop g fw flags n (Suc i)),
             snd (train_eval_loop g fw flags n (Suc i)))"
  using assms
  by (auto simp: load_global_bound loop_pass_def Let_def
      split: option.split sum.split bool.split prod.split)

lemma train_eval_loop_bound_shape:
  assumes "''train_input_fn'' \<in> set g" and "''eval_input_fn'' \<in> set g"
  shows "\<exists>k\<le>n. fst (train_eval_loop g fw flags n i) = concat (map (loop_pass fw) [i..<i + k])"
proof (induction n arbitrary: i)
  case 0
  show ?case by simp
next
  case (Suc n)
  obtain k where k: "k \<le> n"
    "fst (train_eval_loop g fw flags n (Suc i)) = concat (map (loop_pass fw) [Suc i..<Suc i + k])"
    using Suc.IH [of "Suc i"] by blast
  from train_eval_loop_step [OF assms, of fw flags n i] show ?case
  proof
    assume "fst (train_eval_loop g fw flags (Suc n) i) = loop_pass fw i"
    then have "fst (train_eval_loop g fw flags (Suc n) i)
        = concat (map (loop_pass fw) [i..<i + Suc 0])"
      by (simp only: passes_unroll) simp
    moreover have "Suc 0 \<le> Suc n" by simp
    ultimately show ?thesis by blast
  next
    assume "train_eval_loop g fw flags (Suc n) i
          = (loop_pass fw i @ fst (train_eval_loop g fw flags n (Suc i)),
             snd (train_eval_loop g fw flags n (Suc i)))"
    then have "fst (train_eval_loop g fw flags (Suc n) i)
        = loop_pass fw i @ concat (map (loop_pass fw) [Suc i..<Suc i + k])"
      using k(2) by (simp only: fst_conv)
    then have "fst (train_eval_loop g fw flags (Suc n) i)
        = concat (map (loop_pass fw) [i..<i + Suc k])"
      by (simp only: passes_unroll)
    moreover have "Suc k \<le> Suc n" using k(1) by simp
    ultimately show ?thesis by blast
  qed
qed

lemma train_eval_loop_bound_full:
  assumes "''train_input_fn'' \<in> set g" and "''eval_input_fn'' \<in> set g"
    and "\<forall>j<n. \<exists>acc. map_of (evaluate fw (i + j)) ''accuracy'' = Some acc
            \<and> past_stop_threshold fw (stop_threshold flags) acc = Inr False"
  shows "train_eval_loop g fw flags n i = (concat (map (loop_pass fw) [i..<i + n]), None)"
  using assms(3)
proof (induction n arbitrary: i)
  case 0
  show ?case by simp
next
  case (Suc n)
  have "\<forall>j<n. \<exists>acc. map_of (evaluate fw (Suc i + j)) ''accuracy'' = Some acc
            \<and> past_stop_threshold fw (stop_threshold flags) acc = Inr False"
    using Suc.prems by (metis Suc_less_eq add_Suc_shift)
  then have rest: "train_eval_loop g fw flags n (Suc i)
      = (concat (map (loop_pass fw) [Suc i..<Suc i + n]), None)"
    by (rule Suc.IH)
  obtain acc where acc: "map_of (evaluate fw i) ''accuracy'' = Some acc"
    "past_stop_threshold fw (stop_threshold flags) acc = Inr False"
    using Suc.prems by (metis add.right_neutral zero_less_Suc)
  have "train_eval_loop g fw flags (Suc n) i
      = (loop_pass fw i @ concat (map (loop_pass fw) [Suc i..<Suc i + n]), None)"
    using assms(1,2) acc
    by (simp add: load_global_bound loop_pass_def Let_def rest del: upt_Suc)
  then show ?case by (simp only: passes_unroll)
qed

text \<open>
  In a namespace that binds both input functions, and with a non-zero
  \<open>epochs_between_evals\<close>, the calls of \<open>main\<close> are: parse, construct, hooks, then
  \<open>k\<close> passes of train, evaluate, print for some \<open>k\<close> of at most
  \<open>train_epochs // epochs_between_evals\<close>, then nothing more or the export.
\<close>

theorem main_in_order_when_bound:
  assumes "''train_input_fn'' \<in> set g" and "''eval_input_fn'' \<in> set g"
    and "parse_args fw (MNISTArgParser True) (drop 1 argv) = Inr flags"
    and "epochs_between_evals flags \<noteq> 0"
  shows "\<exists>k\<le>nat (train_epochs flags div epochs_between_evals flags). \<exists>rest.
           fst (main_in g fw argv) =
             [Parse_args (MNISTArgParser True) (drop 1 argv),
              Construct_estimator (construct_estimator flags (tpu flags \<noteq> None)),
              Get_train_hooks (hooks flags) (batch_size flags)]
             @ concat (map (loop_pass fw) [0..<k]) @ rest
           \<and> (rest = [] \<or> rest = export_model flags)"
proof -
  let ?n = "nat (train_epochs flags div epochs_between_evals flags)"
  obtain k where k: "k \<le> ?n"
    "fst (train_eval_loop g fw flags ?n 0) = concat (map (loop_pass fw) [0..<0 + k])"
    using train_eval_loop_bound_shape [OF assms(1,2), of ?n fw flags 0] by blast
  obtain looped r where lr: "train_eval_loop g fw flags ?n 0 = (looped, r)"
    by (cases "train_eval_loop g fw flags ?n 0")
  have looped: "looped = concat (map (loop_pass fw) [0..<k])"
    using k(2) lr by simp
  show ?thesis
  proof (cases r)
    case None
    then have "fst (main_in g fw argv) =
             [Parse_args (MNISTArgParser True) (drop 1 argv),
              Construct_estimator (construct_estimator flags (tpu flags \<noteq> None)),
              Get_train_hooks (hooks flags) (batch_size flags)]
             @ concat (map (loop_pass fw) [0..<k]) @ export_model flags"
      using assms(3,4) lr looped by (simp add: main_in_def Let_def)
    then show ?thesis using k(1) by blast
  next
    case (Some e)
    then have "fst (main_in g fw argv) =
             [Parse_args (MNISTArgParser True) (drop 1 argv),
              Construct_estimator (construct_estimator flags (tpu flags \<noteq> None)),
              Get_train_hooks (hooks flags) (batch_size flags)]
             @ concat (map (loop_pass fw) [0..<k]) @ []"
      using assms(3,4) lr looped by (simp add: main_in_def Let_def)
    then show ?thesis using k(1) by blast
  qed
qed

theorem main_in_order_when_bound_witness:
  "\<exists>k\<le>2. \<exists>rest.
     fst (main_in patched_globals (sample_framework (sample_flags\<lparr>train_epochs := 2\<rparr>))
            [''mnist.py'']) =
       [Parse_args (MNISTArgParser True) [],
        Construct_estimator (construct_estimator (sample_flags\<lparr>train_epochs := 2\<rparr>) False),
        Get_train_hooks [''LoggingTensorHook''] 100]
       @ concat (map (loop_pass (sample_framework (sample_flags\<lparr>train_epochs := 2\<rparr>))) [0..<k])
       @ rest"
proof -
  let ?fl = "sample_flags\<lparr>train_epochs := 2\<rparr>"
  have "\<exists>k\<le>nat (train_epochs ?fl div epochs_between_evals ?fl). \<exists>rest.
           fst (main_in patched_globals (sample_framework ?fl) [''mnist.py'']) =
             [Parse_args (MNISTArgParser True) (drop 1 [''mnist.py'']),
              Construct_estimator (construct_estimator ?fl (tpu ?fl \<noteq> None)),
              Get_train_hooks (hooks ?fl) (batch_size ?fl)]
             @ concat (map (loop_pass (sample_framework ?fl)) [0..<k]) @ rest
           \<and> (rest = [] \<or> rest = export_model ?fl)"
    by (rule main_in_order_when_bound)
       (simp_all add: patched_globals_def sample_framework_def sample_flags_def)
  then obtain k rest where
    "k \<le> nat (train_epochs ?fl div epochs_between_evals ?fl)"
    "fst (main_in patched_globals (sample_framework ?fl) [''mnist.py'']) =
             [Parse_args (MNISTArgParser True) (drop 1 [''mnist.py'']),
              Construct_estimator (construct_estimator ?fl (tpu ?fl \<noteq> None)),
              Get_train_hooks (hooks ?fl) (batch_size ?fl)]
             @ concat (map (loop_pass (sample_framework ?fl)) [0..<k]) @ rest"
    by blast
  then have "k \<le> 2 \<and>
    fst (main_in patched_globals (sample_framework ?fl) [''mnist.py'']) =
       [Parse_args (MNISTArgParser True) [],
        Construct_estimator (construct_estimator ?fl False),
        Get_train_hooks [''LoggingTensorHook''] 100]
       @ concat (map (loop_pass (sample_framework ?fl)) [0..<k]) @ rest"
    by (simp add: sample_flags_def)
  then show ?thesis by blast
qed

text \<open>
  If moreover every evaluation reports an accuracy and the threshold test never
  stops the loop, \<open>main\<close> makes exactly \<open>train_epochs // epochs_between_evals\<close>
  passes, then the export, and ends without an error.
\<close>

theorem main_in_full_run:
  assumes "''train_input_fn'' \<in> set g" and "''eval_input_fn'' \<in> set g"
    and "parse_args fw (MNISTArgParser True) (drop 1 argv) = Inr flags"
    and "epochs_between_evals flags \<noteq> 0"
    and "\<forall>j<nat (train_epochs flags div epochs_between_evals flags).
           \<exists>acc. map_of (evaluate fw j) ''accuracy'' = Some acc
              \<and> past_stop_threshold fw (stop_threshold flags) acc = Inr False"
  shows "main_in g fw argv =
           ([Parse_args (MNISTArgParser True) (drop 1 argv),
             Construct_estimator (construct_estimator flags (tpu flags \<noteq> None)),
             Get_train_hooks (hooks flags) (batch_size flags)]
            @ concat (map (loop_pass fw)
                [0..<nat (train_epochs flags div epochs_between_evals flags)])
            @ export_model flags,
            None)"
proof -
  let ?n = "nat (train_epochs flags div epochs_between_evals flags)"
  have "\<forall>j<?n. \<exists>acc. map_of (evaluate fw (0 + j)) ''accuracy'' = Some acc
              \<and> past_stop_threshold fw (stop_threshold flags) acc = Inr False"
    using assms(5) by simp
  then have "train_eval_loop g fw flags ?n 0 = (concat (map (loop_pass fw) [0..<0 + ?n]), None)"
    by (rule train_eval_loop_bound_full [OF assms(1,2)])
  then show ?thesis
    using assms(3,4) by (simp add: main_in_def Let_def)
qed

theorem main_in_full_run_witness:
  "main_in patched_globals
       (sample_framework
          (sample_flags\<lparr>train_epochs := 2, export_dir := Some ''/tmp/mnist_saved_model''\<rparr>))
       [''mnist.py''] =
     ([Parse_args (MNISTArgParser True) [],
       Construct_estimator (construct_estimator sample_flags False),
       Get_train_hooks [''LoggingTensorHook''] 100,
       Train (Global ''train_input_fn''), Evaluate (Global ''eval_input_fn''),
       Print [(''accuracy'', 0), (''loss'', 0), (''global_step'', 0)],
       Train (Global ''train_input_fn''), Evaluate (Global ''eval_input_fn''),
       Print [(''accuracy'', 0), (''loss'', 0), (''global_step'', 0)],
       Placeholder ''float32'' [None, Some 28, Some 28],
       Build_raw_serving_input_receiver_fn [''image''],
       Export_savedmodel ''/tmp/mnist_saved_model''],
      None)"
proof -
  let ?fl = "sample_flags\<lparr>train_epochs := 2, export_dir := Some ''/tmp/mnist_saved_model''\<rparr>"
  have n: "nat (train_epochs ?fl div epochs_between_evals ?fl) = 2"
    by (simp add: sample_flags_def)
  have two: "[0..<2] = [0, Suc 0]"
    by (simp add: numeral_2_eq_2)
  have "main_in patched_globals (sample_framework ?fl) [''mnist.py''] =
           ([Parse_args (MNISTArgParser True) (drop 1 [''mnist.py'']),
             Construct_estimator (construct_estimator ?fl (tpu ?fl \<noteq> None)),
             Get_train_hooks (hooks ?fl) (batch_size ?fl)]
            @ concat (map (loop_pass (sample_framework ?fl))
                [0..<nat (train_epochs ?fl div epochs_between_evals ?fl)])
            @ export_model ?fl,
            None)"
    by (rule main_in_full_run)
       (simp_all add: patched_globals_def sample_framework_def sample_flags_def)
  then show ?thesis
    by (simp add: n two loop_pass_def export_model_def sample_framework_def sample_flags_def
        construct_estimator_def Let_def)
qed

end
